theory Spec2Isabelle
  imports Complex_Main
begin

section \<open>JavaScript values used by the Qdrant adapter\<close>

text \<open>
  The adapter is \<^verbatim>\<open>packages/core/src/vectordb/qdrant-vectordb.ts\<close>. A JavaScript string
  is a sequence of UTF-16 code units; a code unit is modelled as a natural number, so
  that the whitespace class of \<^verbatim>\<open>\s\<close> and of \<^verbatim>\<open>trim()\<close> can be written out in full.
  \<open>js\<close> turns an ASCII literal of the source into its code units.
\<close>

type_synonym jsstring = "nat list"

definition js :: "string \<Rightarrow> jsstring" where
  "js s = map of_char s"

text \<open>
  A JavaScript number is a finite value, \<^verbatim>\<open>NaN\<close> or an infinity. The adapter never
  computes with numbers: it tests them for truthiness and passes them on.
\<close>

datatype number = Num real | NaN | PosInfinity | NegInfinity

fun number_truthy :: "number \<Rightarrow> bool" where
  "number_truthy (Num r) = (r \<noteq> 0)"
| "number_truthy NaN = False"
| "number_truthy PosInfinity = True"
| "number_truthy NegInfinity = True"

text \<open>
  Payload values are whatever JSON the backend stored. An absent property
  (\<^verbatim>\<open>undefined\<close>) is \<open>None\<close> of an option.
\<close>

datatype json =
    JNull
  | JBool bool
  | JNum number
  | JStr jsstring
  | JArr "json list"
  | JObj "(jsstring \<times> json) list"

fun truthy :: "json \<Rightarrow> bool" where
  "truthy JNull = False"
| "truthy (JBool b) = b"
| "truthy (JNum n) = number_truthy n"
| "truthy (JStr s) = (s \<noteq> [])"
| "truthy (JArr xs) = True"
| "truthy (JObj kvs) = True"

text \<open>\<^verbatim>\<open>x || d\<close> for an optional string, an optional number and an optional JSON value.\<close>

fun string_truthy :: "jsstring option \<Rightarrow> bool" where
  "string_truthy None = False"
| "string_truthy (Some s) = (s \<noteq> [])"

fun or_number :: "number option \<Rightarrow> number \<Rightarrow> number" where
  "or_number None d = d"
| "or_number (Some n) d = (if number_truthy n then n else d)"

fun or_json :: "json option \<Rightarrow> json \<Rightarrow> json" where
  "or_json None d = d"
| "or_json (Some v) d = (if truthy v then v else d)"

text \<open>
  Every error of the file is a JavaScript \<^verbatim>\<open>Error\<close> object: the adapter's own are
  \<^verbatim>\<open>new Error(message)\<close>, the backend client's carry an HTTP status as well.
\<close>

record js_error =
  status :: "number option"
  message :: "jsstring option"

definition Error :: "string \<Rightarrow> js_error" where
  "Error m = \<lparr>status = None, message = Some (js m)\<rparr>"

definition NotInitialized :: js_error where
  "NotInitialized = Error ''Qdrant client not initialized''"

definition InvalidRequest :: js_error where
  "InvalidRequest = Error ''Dense vector search request required for hybrid search''"

section \<open>Configuration and the connection gate\<close>

record QdrantConfig =
  url :: "jsstring option"
  apiKey :: "jsstring option"
  port :: "number option"
  host :: "jsstring option"
  timeout :: "number option"

text \<open>
  \<open>clientConfig\<close> is the object handed to \<^verbatim>\<open>new QdrantClient(...)\<close>. It starts as
  \<^verbatim>\<open>{}\<close> and receives only the properties that \<open>initializeClient\<close> assigns.
\<close>

record clientConfig =
  cc_url :: "jsstring option"
  cc_host :: "jsstring option"
  cc_port :: "number option"
  cc_apiKey :: "jsstring option"
  cc_timeout :: "number option"

definition empty_clientConfig :: clientConfig where
  "empty_clientConfig =
     \<lparr>cc_url = None, cc_host = None, cc_port = None, cc_apiKey = None, cc_timeout = None\<rparr>"

definition build_clientConfig :: "QdrantConfig \<Rightarrow> clientConfig" where
  "build_clientConfig cfg =
     (let c1 = (if string_truthy (url cfg) then empty_clientConfig\<lparr>cc_url := url cfg\<rparr>
                else if string_truthy (host cfg)
                then empty_clientConfig
                       \<lparr>cc_host := host cfg, cc_port := Some (or_number (port cfg) (Num 6333))\<rparr>
                else empty_clientConfig
                       \<lparr>cc_host := Some (js ''localhost''), cc_port := Some (Num 6333)\<rparr>);
          c2 = (if string_truthy (apiKey cfg) then c1\<lparr>cc_apiKey := apiKey cfg\<rparr> else c1);
          c3 = (if (case timeout cfg of None \<Rightarrow> False | Some t \<Rightarrow> number_truthy t)
                then c2\<lparr>cc_timeout := timeout cfg\<rparr> else c2)
      in c3)"


section \<open>The backend client\<close>

text \<open>
  \<^verbatim>\<open>QdrantClient\<close> comes from the package \<^verbatim>\<open>@qdrant/js-client-rest\<close>, outside the
  repository. The handle is modelled as a record of its methods; each method either throws
  (\<open>Inl\<close>) or resolves (\<open>Inr\<close>). Each operation of the adapter issues at most one call,
  so a method is a function of the arguments of that call.
\<close>

datatype vectors_config =
    VectorParams number jsstring
  | NamedVectorParams jsstring number jsstring

datatype point_vector = BareVector "number list" | NamedVector jsstring "number list"

record point_payload =
  p_content :: jsstring
  p_relativePath :: jsstring
  p_startLine :: number
  p_endLine :: number
  p_fileExtension :: jsstring
  p_metadata :: "(jsstring \<times> json) list"

record point =
  pt_id :: jsstring
  pt_vector :: point_vector
  pt_payload :: point_payload

record search_request =
  sr_vector :: point_vector
  sr_limit :: number
  sr_score_threshold :: "number option"
  sr_with_payload :: bool
  sr_with_vector :: bool

record condition =
  key :: jsstring
  match_value :: jsstring

datatype qdrant_filter = Must "condition list"

record scroll_request =
  sc_filter :: "qdrant_filter option"
  sc_limit :: number
  sc_with_payload :: bool
  sc_with_vector :: bool

text \<open>What the backend returns for a hit of a search and for a point of a scroll.\<close>

type_synonym payload = "jsstring \<rightharpoonup> json"

record scored_point =
  sp_id :: json
  sp_score :: number
  sp_payload :: "payload option"

record scroll_point =
  rp_id :: json
  rp_payload :: "payload option"

record collection_description =
  collection_name :: jsstring

record QdrantClient =
  client_createCollection :: "jsstring \<Rightarrow> vectors_config \<Rightarrow> js_error + unit"
  client_deleteCollection :: "jsstring \<Rightarrow> js_error + unit"
  client_getCollection :: "jsstring \<Rightarrow> js_error + unit"
  client_getCollections :: "js_error + collection_description list"
  client_upsert :: "jsstring \<Rightarrow> bool \<Rightarrow> point list \<Rightarrow> js_error + unit"
  client_search :: "jsstring \<Rightarrow> search_request \<Rightarrow> js_error + scored_point list"
  client_delete :: "jsstring \<Rightarrow> bool \<Rightarrow> jsstring list \<Rightarrow> js_error + unit"
  client_scroll :: "jsstring \<Rightarrow> scroll_request \<Rightarrow> js_error + scroll_point list"

text \<open>The backend calls an operation issued, in order: the trace of the operation.\<close>

datatype backend_call =
    CreateCollection jsstring vectors_config
  | DeleteCollection jsstring
  | GetCollection jsstring
  | GetCollections
  | Upsert jsstring bool "point list"
  | Search jsstring search_request
  | Delete jsstring bool "jsstring list"
  | Scroll jsstring scroll_request

type_synonym 'a outcome = "(js_error + 'a) \<times> backend_call list"

section \<open>The adapter\<close>

text \<open>
  The constructor stores the configuration and starts \<open>initialize\<close>, which contains no
  suspension point before \<^verbatim>\<open>this.client = new QdrantClient(clientConfig)\<close>: when an
  operation awaits \<open>initializationPromise\<close> the promise is settled, fulfilled (\<open>None\<close>) or
  rejected with what the client's constructor threw (\<open>Some e\<close>). \<open>client\<close> is
  \<^verbatim>\<open>null\<close> until the assignment.
\<close>

record QdrantVectorDatabase =
  config :: QdrantConfig
  client :: "QdrantClient option"
  initializationPromise :: "js_error option"

definition initializeClient ::
  "(clientConfig \<Rightarrow> js_error + QdrantClient) \<Rightarrow> QdrantConfig \<Rightarrow> js_error + QdrantClient" where
  "initializeClient new_QdrantClient cfg = new_QdrantClient (build_clientConfig cfg)"

definition new_QdrantVectorDatabase ::
  "(clientConfig \<Rightarrow> js_error + QdrantClient) \<Rightarrow> QdrantConfig \<Rightarrow> QdrantVectorDatabase" where
  "new_QdrantVectorDatabase new_QdrantClient cfg =
     (case initializeClient new_QdrantClient cfg of
        Inl e \<Rightarrow> \<lparr>config = cfg, client = None, initializationPromise = Some e\<rparr>
      | Inr c \<Rightarrow> \<lparr>config = cfg, client = Some c, initializationPromise = None\<rparr>)"

definition ensureInitialized :: "QdrantVectorDatabase \<Rightarrow> js_error + QdrantClient" where
  "ensureInitialized db =
     (case initializationPromise db of
        Some e \<Rightarrow> Inl e
      | None \<Rightarrow> (case client db of None \<Rightarrow> Inl NotInitialized | Some c \<Rightarrow> Inr c))"

text \<open>
  An operation that awaits one backend call and returns what \<open>f\<close> makes of its answer;
  an error of the call propagates.
\<close>

definition backend :: "backend_call \<Rightarrow> js_error + 'r \<Rightarrow> ('r \<Rightarrow> 'a) \<Rightarrow> 'a outcome" where
  "backend call answer f =
     (case answer of Inl e \<Rightarrow> (Inl e, [call]) | Inr r \<Rightarrow> (Inr (f r), [call]))"

definition createCollection :: "QdrantVectorDatabase \<Rightarrow> jsstring \<Rightarrow> number \<Rightarrow> unit outcome" where
  "createCollection db collectionName dimension =
     (case ensureInitialized db of
        Inl e \<Rightarrow> (Inl e, [])
      | Inr c \<Rightarrow>
          (let vectors = VectorParams dimension (js ''Cosine'')
           in backend (CreateCollection collectionName vectors)
                (client_createCollection c collectionName vectors) (\<lambda>_. ())))"

definition createHybridCollection ::
  "QdrantVectorDatabase \<Rightarrow> jsstring \<Rightarrow> number \<Rightarrow> unit outcome" where
  "createHybridCollection db collectionName dimension =
     (case ensureInitialized db of
        Inl e \<Rightarrow> (Inl e, [])
      | Inr c \<Rightarrow>
          (let vectors = NamedVectorParams (js ''dense'') dimension (js ''Cosine'')
           in backend (CreateCollection collectionName vectors)
                (client_createCollection c collectionName vectors) (\<lambda>_. ())))"

definition dropCollection :: "QdrantVectorDatabase \<Rightarrow> jsstring \<Rightarrow> unit outcome" where
  "dropCollection db collectionName =
     (case ensureInitialized db of
        Inl e \<Rightarrow> (Inl e, [])
      | Inr c \<Rightarrow>
          backend (DeleteCollection collectionName)
            (client_deleteCollection c collectionName) (\<lambda>_. ()))"


text \<open>\<^verbatim>\<open>String.prototype.includes\<close>: the needle occurs somewhere in the string.\<close>

fun starts_with :: "jsstring \<Rightarrow> jsstring \<Rightarrow> bool" where
  "starts_with s [] = True"
| "starts_with [] (p # ps) = False"
| "starts_with (c # cs) (p # ps) = (c = p \<and> starts_with cs ps)"

fun js_includes :: "jsstring \<Rightarrow> jsstring \<Rightarrow> bool" where
  "js_includes [] needle = starts_with [] needle"
| "js_includes (c # cs) needle = (starts_with (c # cs) needle \<or> js_includes cs needle)"

text \<open>
  The test of the \<^verbatim>\<open>catch\<close> block of \<open>hasCollection\<close>:
  \<^verbatim>\<open>error.status === 404 || error.message?.includes('not found')\<close>.
\<close>

definition is_not_found :: "js_error \<Rightarrow> bool" where
  "is_not_found error =
     (status error = Some (Num 404) \<or>
      (case message error of None \<Rightarrow> False | Some m \<Rightarrow> js_includes m (js ''not found'')))"

definition hasCollection :: "QdrantVectorDatabase \<Rightarrow> jsstring \<Rightarrow> bool outcome" where
  "hasCollection db collectionName =
     (case ensureInitialized db of
        Inl e \<Rightarrow> (Inl e, [])
      | Inr c \<Rightarrow>
          (case client_getCollection c collectionName of
             Inr _ \<Rightarrow> (Inr True, [GetCollection collectionName])
           | Inl error \<Rightarrow>
               (if is_not_found error then (Inr False, [GetCollection collectionName])
                else (Inl error, [GetCollection collectionName]))))"

definition listCollections :: "QdrantVectorDatabase \<Rightarrow> jsstring list outcome" where
  "listCollections db =
     (case ensureInitialized db of
        Inl e \<Rightarrow> (Inl e, [])
      | Inr c \<Rightarrow> backend GetCollections (client_getCollections c) (map collection_name))"

text \<open>
  Modelled from the spec: the declaration of \<open>VectorDocument\<close> in \<^verbatim>\<open>./types\<close>, which is
  not among the sources. The fields are those of the spec's data model, the ones \<open>insert\<close>
  and \<open>insertHybrid\<close> read; \<open>id\<close> is named \<open>doc_id\<close> here.
\<close>

record VectorDocument =
  doc_id :: jsstring
  vector :: "number list"
  content :: jsstring
  relativePath :: jsstring
  startLine :: number
  endLine :: number
  fileExtension :: jsstring
  metadata :: "(jsstring \<times> json) list"

definition payload_of :: "VectorDocument \<Rightarrow> point_payload" where
  "payload_of doc =
     \<lparr>p_content = content doc, p_relativePath = relativePath doc,
      p_startLine = startLine doc, p_endLine = endLine doc,
      p_fileExtension = fileExtension doc, p_metadata = metadata doc\<rparr>"

definition insert_point :: "VectorDocument \<Rightarrow> point" where
  "insert_point doc =
     \<lparr>pt_id = doc_id doc, pt_vector = BareVector (vector doc), pt_payload = payload_of doc\<rparr>"

definition insertHybrid_point :: "VectorDocument \<Rightarrow> point" where
  "insertHybrid_point doc =
     \<lparr>pt_id = doc_id doc, pt_vector = NamedVector (js ''dense'') (vector doc),
      pt_payload = payload_of doc\<rparr>"

definition insert_docs ::
  "QdrantVectorDatabase \<Rightarrow> jsstring \<Rightarrow> VectorDocument list \<Rightarrow> unit outcome" where
  "insert_docs db collectionName documents =
     (case ensureInitialized db of
        Inl e \<Rightarrow> (Inl e, [])
      | Inr c \<Rightarrow>
          (let points = map insert_point documents
           in backend (Upsert collectionName True points)
                (client_upsert c collectionName True points) (\<lambda>_. ())))"

definition insertHybrid ::
  "QdrantVectorDatabase \<Rightarrow> jsstring \<Rightarrow> VectorDocument list \<Rightarrow> unit outcome" where
  "insertHybrid db collectionName documents =
     (case ensureInitialized db of
        Inl e \<Rightarrow> (Inl e, [])
      | Inr c \<Rightarrow>
          (let points = map insertHybrid_point documents
           in backend (Upsert collectionName True points)
                (client_upsert c collectionName True points) (\<lambda>_. ())))"

definition delete_ids :: "QdrantVectorDatabase \<Rightarrow> jsstring \<Rightarrow> jsstring list \<Rightarrow> unit outcome" where
  "delete_ids db collectionName ids =
     (case ensureInitialized db of
        Inl e \<Rightarrow> (Inl e, [])
      | Inr c \<Rightarrow>
          backend (Delete collectionName True ids)
            (client_delete c collectionName True ids) (\<lambda>_. ()))"

section \<open>Search and hybrid search\<close>

text \<open>
  The document of a result. The casts of the source (\<^verbatim>\<open>payload.content as string\<close>) are
  erased at run time, so a field holds whatever JSON value the payload holds when that
  value is truthy.
\<close>

record result_document =
  r_id :: json
  r_vector :: "number list"
  r_content :: json
  r_relativePath :: json
  r_startLine :: json
  r_endLine :: json
  r_fileExtension :: json
  r_metadata :: json

record VectorSearchResult =
  document :: result_document
  score :: number

definition decode_result :: "number list \<Rightarrow> scored_point \<Rightarrow> VectorSearchResult" where
  "decode_result v result =
     (let payload = (case sp_payload result of None \<Rightarrow> Map.empty | Some p \<Rightarrow> p)
      in \<lparr>document =
            \<lparr>r_id = sp_id result,
             r_vector = v,
             r_content = or_json (payload (js ''content'')) (JStr []),
             r_relativePath = or_json (payload (js ''relativePath'')) (JStr []),
             r_startLine = or_json (payload (js ''startLine'')) (JNum (Num 0)),
             r_endLine = or_json (payload (js ''endLine'')) (JNum (Num 0)),
             r_fileExtension = or_json (payload (js ''fileExtension'')) (JStr []),
             r_metadata = or_json (payload (js ''metadata'')) (JObj [])\<rparr>,
          score = sp_score result\<rparr>)"

text \<open>
  Modelled from the spec: the declaration of \<open>SearchOptions\<close> in \<^verbatim>\<open>./types\<close>, with the
  two options of the spec's operation table, both optional, which are the two \<open>search\<close>
  reads. The options object itself is optional.
\<close>

record SearchOptions =
  topK :: "number option"
  threshold :: "number option"

definition search_limit :: "SearchOptions option \<Rightarrow> number" where
  "search_limit options = or_number (case options of None \<Rightarrow> None | Some opts \<Rightarrow> topK opts) (Num 10)"

definition search_scoreThreshold :: "SearchOptions option \<Rightarrow> number" where
  "search_scoreThreshold options =
     or_number (case options of None \<Rightarrow> None | Some opts \<Rightarrow> threshold opts) (Num 0)"

definition search_request_of :: "number list \<Rightarrow> SearchOptions option \<Rightarrow> search_request" where
  "search_request_of queryVector options =
     \<lparr>sr_vector = BareVector queryVector,
      sr_limit = search_limit options,
      sr_score_threshold = Some (search_scoreThreshold options),
      sr_with_payload = True,
      sr_with_vector = False\<rparr>"

definition search ::
  "QdrantVectorDatabase \<Rightarrow> jsstring \<Rightarrow> number list \<Rightarrow> SearchOptions option
     \<Rightarrow> VectorSearchResult list outcome" where
  "search db collectionName queryVector options =
     (case ensureInitialized db of
        Inl e \<Rightarrow> (Inl e, [])
      | Inr c \<Rightarrow>
          (let request = search_request_of queryVector options
           in backend (Search collectionName request)
                (client_search c collectionName request)
                (map (decode_result queryVector))))"


text \<open>
  Modelled from the spec: the declarations of \<open>HybridSearchRequest\<close> and
  \<open>HybridSearchOptions\<close> in \<^verbatim>\<open>./types\<close>. A request names its vector field
  (\<open>anns_field\<close>) and carries its data and a limit; the options carry a limit. These are
  the fields \<open>hybridSearch\<close> reads. The data is an array of numbers or something else, a
  text query: \<^verbatim>\<open>Array.isArray\<close> tells them apart. A limit may be absent at run time.
\<close>

datatype request_data = ArrayData "number list" | TextData jsstring

record HybridSearchRequest =
  data :: request_data
  anns_field :: jsstring
  req_limit :: "number option"

record HybridSearchOptions =
  opt_limit :: "number option"

definition hybrid_limit ::
  "HybridSearchRequest list \<Rightarrow> HybridSearchOptions option \<Rightarrow> number" where
  "hybrid_limit searchRequests options =
     or_number (case options of None \<Rightarrow> None | Some opts \<Rightarrow> opt_limit opts)
       (or_number (case searchRequests of [] \<Rightarrow> None | r # _ \<Rightarrow> req_limit r) (Num 10))"

definition hybrid_request_of :: "number list \<Rightarrow> number \<Rightarrow> search_request" where
  "hybrid_request_of v limit =
     \<lparr>sr_vector = NamedVector (js ''dense'') v,
      sr_limit = limit,
      sr_score_threshold = None,
      sr_with_payload = True,
      sr_with_vector = False\<rparr>"

definition hybridSearch ::
  "QdrantVectorDatabase \<Rightarrow> jsstring \<Rightarrow> HybridSearchRequest list \<Rightarrow> HybridSearchOptions option
     \<Rightarrow> VectorSearchResult list outcome" where
  "hybridSearch db collectionName searchRequests options =
     (case ensureInitialized db of
        Inl e \<Rightarrow> (Inl e, [])
      | Inr c \<Rightarrow>
          (let limit = hybrid_limit searchRequests options;
               denseSearchRequest = find (\<lambda>req. anns_field req = js ''vector'') searchRequests
           in case denseSearchRequest of
                None \<Rightarrow> (Inl InvalidRequest, [])
              | Some dense \<Rightarrow>
                  (case data dense of
                     TextData _ \<Rightarrow> (Inl InvalidRequest, [])
                   | ArrayData v \<Rightarrow>
                       (let request = hybrid_request_of v limit
                        in backend (Search collectionName request)
                             (client_search c collectionName request)
                             (map (decode_result []))))))"

section \<open>Query and its filter\<close>

text \<open>
  The class \<^verbatim>\<open>\s\<close> of a regular expression and the characters \<^verbatim>\<open>trim()\<close> strips are
  the same set: the white space and the line terminators of ECMAScript.
\<close>

definition is_whitespace :: "nat \<Rightarrow> bool" where
  "is_whitespace c =
     (c \<in> set [9, 10, 11, 12, 13, 32, 160, 5760, 8232, 8233, 8239, 8287, 12288, 65279]
      \<or> (8192 \<le> c \<and> c \<le> 8202))"

definition trim :: "jsstring \<Rightarrow> jsstring" where
  "trim s = rev (dropWhile is_whitespace (rev (dropWhile is_whitespace s)))"

fun strip_prefix :: "jsstring \<Rightarrow> jsstring \<Rightarrow> jsstring option" where
  "strip_prefix [] s = Some s"
| "strip_prefix (p # ps) [] = None"
| "strip_prefix (p # ps) (c # cs) = (if p = c then strip_prefix ps cs else None)"

text \<open>
  The regular expression \<^verbatim>\<open>/relativePath\s*==\s*"([^"]+)"/\<close> tried at the start of \<open>s\<close>;
  the result is the capture group. The character after each greedy repetition is outside
  the class repeated (\<^verbatim>\<open>=\<close> and the quote are no white space, the closing quote is not
  in \<^verbatim>\<open>[^"]\<close>), so a shorter repetition never matches where the longest does not.
  Code unit 34 is the double quote.
\<close>

definition regexp_at :: "jsstring \<Rightarrow> jsstring option" where
  "regexp_at s =
     (case strip_prefix (js ''relativePath'') s of
        None \<Rightarrow> None
      | Some r1 \<Rightarrow>
          (case strip_prefix (js ''=='') (dropWhile is_whitespace r1) of
             None \<Rightarrow> None
           | Some r2 \<Rightarrow>
               (case dropWhile is_whitespace r2 of
                  [] \<Rightarrow> None
                | q # r3 \<Rightarrow>
                    (if q \<noteq> 34 then None
                     else (let lit = takeWhile (\<lambda>c. c \<noteq> 34) r3
                           in case dropWhile (\<lambda>c. c \<noteq> 34) r3 of
                                [] \<Rightarrow> None
                              | _ # _ \<Rightarrow> (if lit = [] then None else Some lit))))))"

text \<open>\<^verbatim>\<open>filter.match(regexp)\<close> without the global flag: the leftmost position that matches.\<close>

fun pathMatch :: "jsstring \<Rightarrow> jsstring option" where
  "pathMatch [] = regexp_at []"
| "pathMatch (c # cs) =
     (case regexp_at (c # cs) of Some lit \<Rightarrow> Some lit | None \<Rightarrow> pathMatch cs)"

definition qdrantFilter :: "jsstring \<Rightarrow> qdrant_filter option" where
  "qdrantFilter filter_expr =
     (if filter_expr \<noteq> [] \<and> trim filter_expr \<noteq> []
      then (case pathMatch filter_expr of
              None \<Rightarrow> None
            | Some lit \<Rightarrow> Some (Must [\<lparr>key = js ''relativePath'', match_value = lit\<rparr>]))
      else None)"

text \<open>
  One record of the result, as the map of its own properties: \<open>id\<close>, then each requested
  field that is \<^verbatim>\<open>in\<close> the payload. The operator \<^verbatim>\<open>in\<close> holds of the payload's own
  keys and of the properties a plain object inherits from \<^verbatim>\<open>Object.prototype\<close>; reading
  an inherited property yields the prototype's value, written \<open>Inherited\<close> with its name.
  An assignment to \<^verbatim>\<open>__proto__\<close> runs the prototype's setter and creates no own
  property.
\<close>

datatype field_value = Stored json | Inherited jsstring

definition object_prototype_keys :: "jsstring list" where
  "object_prototype_keys =
     [js ''constructor'', js ''__defineGetter__'', js ''__defineSetter__'',
      js ''hasOwnProperty'', js ''__lookupGetter__'', js ''__lookupSetter__'',
      js ''isPrototypeOf'', js ''propertyIsEnumerable'', js ''toString'', js ''valueOf'',
      js ''toLocaleString'']"

definition copy_field ::
  "payload \<Rightarrow> (jsstring \<rightharpoonup> field_value) \<Rightarrow> jsstring \<Rightarrow> (jsstring \<rightharpoonup> field_value)" where
  "copy_field payload result field =
     (if field = js ''__proto__'' then result
      else (case payload field of
              Some v \<Rightarrow> result(field \<mapsto> Stored v)
            | None \<Rightarrow>
                (if field \<in> set object_prototype_keys then result(field \<mapsto> Inherited field)
                 else result)))"

definition query_point ::
  "jsstring list \<Rightarrow> scroll_point \<Rightarrow> (jsstring \<rightharpoonup> field_value)" where
  "query_point outputFields point =
     (let result = [js ''id'' \<mapsto> Stored (rp_id point)]
      in case rp_payload point of
           None \<Rightarrow> result
         | Some payload \<Rightarrow> foldl (copy_field payload) result outputFields)"

definition scroll_request_of :: "jsstring \<Rightarrow> number option \<Rightarrow> scroll_request" where
  "scroll_request_of filter_expr limit =
     \<lparr>sc_filter = qdrantFilter filter_expr,
      sc_limit = or_number limit (Num 100),
      sc_with_payload = True,
      sc_with_vector = False\<rparr>"

definition query ::
  "QdrantVectorDatabase \<Rightarrow> jsstring \<Rightarrow> jsstring \<Rightarrow> jsstring list \<Rightarrow> number option
     \<Rightarrow> (jsstring \<rightharpoonup> field_value) list outcome" where
  "query db collectionName filter_expr outputFields limit =
     (case ensureInitialized db of
        Inl e \<Rightarrow> (Inl e, [])
      | Inr c \<Rightarrow>
          (let request = scroll_request_of filter_expr limit
           in backend (Scroll collectionName request)
                (client_scroll c collectionName request)
                (map (query_point outputFields))))"


section \<open>The public surface as one type\<close>

text \<open>
  The eleven public methods of the class, with their arguments, and what a caller observes
  of one invocation: the error thrown, if any, and the backend calls issued.
\<close>

datatype operation =
    CallCreateCollection jsstring number
  | CallCreateHybridCollection jsstring number
  | CallDropCollection jsstring
  | CallHasCollection jsstring
  | CallListCollections
  | CallInsert jsstring "VectorDocument list"
  | CallInsertHybrid jsstring "VectorDocument list"
  | CallSearch jsstring "number list" "SearchOptions option"
  | CallHybridSearch jsstring "HybridSearchRequest list" "HybridSearchOptions option"
  | CallDelete jsstring "jsstring list"
  | CallQuery jsstring jsstring "jsstring list" "number option"

definition observed :: "'a outcome \<Rightarrow> js_error option \<times> backend_call list" where
  "observed r = ((case fst r of Inl e \<Rightarrow> Some e | Inr _ \<Rightarrow> None), snd r)"

fun invoke :: "QdrantVectorDatabase \<Rightarrow> operation \<Rightarrow> js_error option \<times> backend_call list" where
  "invoke db (CallCreateCollection n d) = observed (createCollection db n d)"
| "invoke db (CallCreateHybridCollection n d) = observed (createHybridCollection db n d)"
| "invoke db (CallDropCollection n) = observed (dropCollection db n)"
| "invoke db (CallHasCollection n) = observed (hasCollection db n)"
| "invoke db CallListCollections = observed (listCollections db)"
| "invoke db (CallInsert n docs) = observed (insert_docs db n docs)"
| "invoke db (CallInsertHybrid n docs) = observed (insertHybrid db n docs)"
| "invoke db (CallSearch n v opts) = observed (search db n v opts)"
| "invoke db (CallHybridSearch n reqs opts) = observed (hybridSearch db n reqs opts)"
| "invoke db (CallDelete n ids) = observed (delete_ids db n ids)"
| "invoke db (CallQuery n f outputFields l) = observed (query db n f outputFields l)"

text \<open>
  The dense request of a request list, as \<open>hybridSearch\<close> selects it: the first request
  whose \<open>anns_field\<close> is \<^verbatim>\<open>'vector'\<close>, accepted when its data is an array.
\<close>

definition dense_vector :: "HybridSearchRequest list \<Rightarrow> number list option" where
  "dense_vector reqs =
     (case find (\<lambda>req. anns_field req = js ''vector'') reqs of
        None \<Rightarrow> None
      | Some dense \<Rightarrow> (case data dense of ArrayData v \<Rightarrow> Some v | TextData _ \<Rightarrow> None))"

fun rejected_before_backend :: "operation \<Rightarrow> bool" where
  "rejected_before_backend (CallHybridSearch n reqs opts) = (dense_vector reqs = None)"
| "rejected_before_backend _ = False"

text \<open>A field is missing from a hit when the hit has no payload or the payload lacks it.\<close>

definition missing :: "scored_point \<Rightarrow> jsstring \<Rightarrow> bool" where
  "missing hit field = (case sp_payload hit of None \<Rightarrow> True | Some p \<Rightarrow> p field = None)"

text \<open>The clause \<^verbatim>\<open>relativePath<ws1>==<ws2>"<lit>"\<close> that the regular expression describes.\<close>

definition path_clause :: "jsstring \<Rightarrow> jsstring \<Rightarrow> jsstring \<Rightarrow> jsstring" where
  "path_clause ws1 ws2 lit = js ''relativePath'' @ ws1 @ js ''=='' @ ws2 @ [34] @ lit @ [34]"

definition well_formed_clause :: "jsstring \<Rightarrow> jsstring \<Rightarrow> jsstring \<Rightarrow> bool" where
  "well_formed_clause ws1 ws2 lit =
     (list_all is_whitespace ws1 \<and> list_all is_whitespace ws2 \<and> lit \<noteq> [] \<and> 34 \<notin> set lit)"

section \<open>Concrete instances\<close>

definition sample_hit :: scored_point where
  "sample_hit = \<lparr>sp_id = JStr (js ''p1''), sp_score = Num 1, sp_payload = None\<rparr>"

definition sample_client :: QdrantClient where
  "sample_client =
     \<lparr>client_createCollection = (\<lambda>name vectors. Inr ()),
      client_deleteCollection = (\<lambda>name. Inr ()),
      client_getCollection = (\<lambda>name. Inr ()),
      client_getCollections = Inr [],
      client_upsert = (\<lambda>name wait points. Inr ()),
      client_search = (\<lambda>name request. Inr [sample_hit]),
      client_delete = (\<lambda>name wait ids. Inr ()),
      client_scroll = (\<lambda>name request. Inr [])\<rparr>"

definition accepting_QdrantClient :: "clientConfig \<Rightarrow> js_error + QdrantClient" where
  "accepting_QdrantClient cc = Inr sample_client"

definition rejecting_QdrantClient :: "clientConfig \<Rightarrow> js_error + QdrantClient" where
  "rejecting_QdrantClient cc = Inl (Error ''Invalid client configuration'')"

definition no_config :: QdrantConfig where
  "no_config = \<lparr>url = None, apiKey = None, port = None, host = None, timeout = None\<rparr>"

definition ready_db :: QdrantVectorDatabase where
  "ready_db = new_QdrantVectorDatabase accepting_QdrantClient no_config"

definition failed_db :: QdrantVectorDatabase where
  "failed_db = new_QdrantVectorDatabase rejecting_QdrantClient no_config"

definition text_request :: HybridSearchRequest where
  "text_request = \<lparr>data = TextData (js ''parse filter''), anns_field = js ''vector'', req_limit = None\<rparr>"

definition array_request :: "jsstring \<Rightarrow> HybridSearchRequest" where
  "array_request field = \<lparr>data = ArrayData [Num 1, Num 0], anns_field = field, req_limit = None\<rparr>"


definition partial_hit :: scored_point where
  "partial_hit =
     \<lparr>sp_id = JStr (js ''p2''), sp_score = Num (1 / 2),
      sp_payload = Some [js ''content'' \<mapsto> JStr (js ''const x = 1'')]\<rparr>"

definition lookup_client :: "js_error + unit \<Rightarrow> QdrantClient" where
  "lookup_client answer = sample_client\<lparr>client_getCollection := (\<lambda>name. answer)\<rparr>"

definition connected :: "QdrantClient \<Rightarrow> QdrantVectorDatabase" where
  "connected c = new_QdrantVectorDatabase (\<lambda>cc. Inr c) no_config"

definition zero_topK :: SearchOptions where
  "zero_topK = \<lparr>topK = Some (Num 0), threshold = None\<rparr>"

definition five_topK :: SearchOptions where
  "five_topK = \<lparr>topK = Some (Num 5), threshold = Some (Num (1 / 2))\<rparr>"

definition handleless_db :: QdrantVectorDatabase where
  "handleless_db = \<lparr>config = no_config, client = None, initializationPromise = None\<rparr>"

definition extension_filter :: jsstring where
  "extension_filter = js ''fileExtension == '' @ [34] @ js ''.ts'' @ [34]"

definition compound_filter :: jsstring where
  "compound_filter =
     js ''startLine == 7 && relativePath=='' @ [34] @ js ''a.ts'' @ [34] @ js '' || x''"

section \<open>Connection target\<close>

text \<open>
  C4 (as amended). The connection target follows this precedence: a non-empty \<open>url\<close> is
  used alone; otherwise a non-empty \<open>host\<close> is used with the supplied port, 6333 when the
  port is omitted, zero or \<^verbatim>\<open>NaN\<close>; otherwise \<^verbatim>\<open>localhost:6333\<close>. An \<open>apiKey\<close> is
  passed to the backend client when it is a non-empty string and a \<open>timeout\<close> when it is
  a non-zero number; the client is constructed from exactly this configuration.
\<close>

theorem initializeClient_precedence:
  "(string_truthy (url cfg) \<longrightarrow>
      cc_url (build_clientConfig cfg) = url cfg \<and> cc_host (build_clientConfig cfg) = None
      \<and> cc_port (build_clientConfig cfg) = None) \<and>
   (\<not> string_truthy (url cfg) \<and> string_truthy (host cfg) \<longrightarrow>
      cc_url (build_clientConfig cfg) = None \<and> cc_host (build_clientConfig cfg) = host cfg
      \<and> cc_port (build_clientConfig cfg) = Some (or_number (port cfg) (Num 6333))) \<and>
   (\<not> string_truthy (url cfg) \<and> \<not> string_truthy (host cfg) \<longrightarrow>
      cc_url (build_clientConfig cfg) = None
      \<and> cc_host (build_clientConfig cfg) = Some (js ''localhost'')
      \<and> cc_port (build_clientConfig cfg) = Some (Num 6333)) \<and>
   cc_apiKey (build_clientConfig cfg) = (if string_truthy (apiKey cfg) then apiKey cfg else None) \<and>
   cc_timeout (build_clientConfig cfg) =
     (case timeout cfg of
        None \<Rightarrow> None
      | Some t \<Rightarrow> if number_truthy t then Some t else None) \<and>
   initializeClient new_QdrantClient cfg = new_QdrantClient (build_clientConfig cfg)"
  by (simp add: build_clientConfig_def empty_clientConfig_def initializeClient_def Let_def
      split: option.splits)

text \<open>
  The theorem at a configuration with a host, a port and a timeout and no \<open>url\<close>: the
  host and port are used and the timeout is passed on.
\<close>

theorem initializeClient_precedence_witness:
  "\<not> string_truthy (url (no_config\<lparr>host := Some (js ''db''), port := Some (Num 7000),
        timeout := Some (Num 5000)\<rparr>)) \<and>
   string_truthy (host (no_config\<lparr>host := Some (js ''db''), port := Some (Num 7000),
        timeout := Some (Num 5000)\<rparr>)) \<and>
   build_clientConfig (no_config\<lparr>host := Some (js ''db''), port := Some (Num 7000),
        timeout := Some (Num 5000)\<rparr>)
     = \<lparr>cc_url = None, cc_host = Some (js ''db''), cc_port = Some (Num 7000),
        cc_apiKey = None, cc_timeout = Some (Num 5000)\<rparr>"
  using initializeClient_precedence
    [of "no_config\<lparr>host := Some (js ''db''), port := Some (Num 7000),
           timeout := Some (Num 5000)\<rparr>"]
  by (simp add: no_config_def js_def)

text \<open>
  C4 as stated fails: a timeout of zero is supplied in the configuration and is not
  passed to the backend client (\<^verbatim>\<open>if (this.config.timeout)\<close> tests truthiness).
\<close>

theorem timeout_zero_not_passed:
  "timeout (no_config\<lparr>timeout := Some (Num 0)\<rparr>) = Some (Num 0) \<and>
   cc_timeout (build_clientConfig (no_config\<lparr>timeout := Some (Num 0)\<rparr>)) = None"
  by (simp add: build_clientConfig_def empty_clientConfig_def no_config_def)

section \<open>Empty batches\<close>

lemma ensureInitialized_ready_db: "ensureInitialized ready_db = Inr sample_client"
  by (simp add: ready_db_def new_QdrantVectorDatabase_def initializeClient_def
      accepting_QdrantClient_def ensureInitialized_def)

lemma ensureInitialized_failed_db:
  "ensureInitialized failed_db = Inl (Error ''Invalid client configuration'')"
  by (simp add: failed_db_def new_QdrantVectorDatabase_def initializeClient_def
      rejecting_QdrantClient_def ensureInitialized_def)

text \<open>
  C10. Neither \<open>insert\<close>, \<open>insertHybrid\<close> nor \<open>delete\<close> checks that its list is
  non-empty: behind the connection gate each of them, given the empty list, issues its
  backend call (an upsert with no points, a delete with no ids, both with \<open>wait\<close> set) and
  returns what the backend answers; none fails before the call.
\<close>

theorem empty_batches_reach_backend:
  assumes "ensureInitialized db = Inr c"
  shows "insert_docs db name [] =
           ((case client_upsert c name True [] of Inl e \<Rightarrow> Inl e | Inr u \<Rightarrow> Inr ()),
            [Upsert name True []]) \<and>
         insertHybrid db name [] =
           ((case client_upsert c name True [] of Inl e \<Rightarrow> Inl e | Inr u \<Rightarrow> Inr ()),
            [Upsert name True []]) \<and>
         delete_ids db name [] =
           ((case client_delete c name True [] of Inl e \<Rightarrow> Inl e | Inr u \<Rightarrow> Inr ()),
            [Delete name True []])"
  using assms
  by (simp add: insert_docs_def insertHybrid_def delete_ids_def backend_def split: sum.splits)

text \<open>
  The theorem at a connected adapter: the three calls are issued with empty lists.
\<close>

theorem empty_batches_reach_backend_witness:
  "ensureInitialized ready_db = Inr sample_client \<and>
   insert_docs ready_db (js ''code'') [] = (Inr (), [Upsert (js ''code'') True []]) \<and>
   insertHybrid ready_db (js ''code'') [] = (Inr (), [Upsert (js ''code'') True []]) \<and>
   delete_ids ready_db (js ''code'') [] = (Inr (), [Delete (js ''code'') True []])"
  using empty_batches_reach_backend [OF ensureInitialized_ready_db, of "js ''code''"]
  by (simp add: ensureInitialized_ready_db sample_client_def)

section \<open>Decoding of results\<close>

lemma search_ready:
  "ensureInitialized db = Inr c \<Longrightarrow>
   search db name queryVector options =
     ((case client_search c name (search_request_of queryVector options) of
         Inl e \<Rightarrow> Inl e
       | Inr hits \<Rightarrow> Inr (map (decode_result queryVector) hits)),
      [Search name (search_request_of queryVector options)])"
  by (simp add: search_def backend_def Let_def split: sum.splits)

lemma hybridSearch_ready:
  "ensureInitialized db = Inr c \<Longrightarrow>
   hybridSearch db name reqs options =
     (case dense_vector reqs of
        None \<Rightarrow> (Inl InvalidRequest, [])
      | Some v \<Rightarrow>
          ((case client_search c name (hybrid_request_of v (hybrid_limit reqs options)) of
              Inl e \<Rightarrow> Inl e
            | Inr hits \<Rightarrow> Inr (map (decode_result []) hits)),
           [Search name (hybrid_request_of v (hybrid_limit reqs options))]))"
  by (simp add: hybridSearch_def dense_vector_def backend_def Let_def
      split: sum.splits option.splits request_data.splits)

lemma search_sample:
  "search ready_db name queryVector options =
     (Inr [decode_result queryVector sample_hit], [Search name (search_request_of queryVector options)])"
  by (simp add: search_ready [OF ensureInitialized_ready_db] sample_client_def)

text \<open>
  C8. Every result of \<open>search\<close> carries the caller's query vector as its document's
  vector, every result of \<open>hybridSearch\<close> carries the empty sequence, and no search call
  either operation issues asks the backend for vectors.
\<close>

theorem result_vectors:
  "(search db name queryVector options = (Inr results, trace) \<longrightarrow>
      (\<forall>r \<in> set results. r_vector (document r) = queryVector) \<and>
      (\<forall>call \<in> set trace. \<forall>n request. call = Search n request \<longrightarrow> \<not> sr_with_vector request)) \<and>
   (hybridSearch db name searchRequests hoptions = (Inr hresults, htrace) \<longrightarrow>
      (\<forall>r \<in> set hresults. r_vector (document r) = []) \<and>
      (\<forall>call \<in> set htrace. \<forall>n request. call = Search n request \<longrightarrow> \<not> sr_with_vector request))"
  by (auto simp: search_def hybridSearch_def backend_def decode_result_def Let_def
      search_request_of_def hybrid_request_of_def
      split: sum.splits option.splits request_data.splits)

lemma dense_vector_array [simp]: "dense_vector [array_request (js ''vector'')] = Some [Num 1, Num 0]"
  by (simp add: dense_vector_def array_request_def)

lemma hybrid_limit_array [simp]: "hybrid_limit [array_request field] None = Num 10"
  by (simp add: hybrid_limit_def array_request_def)

lemma hybridSearch_sample:
  "hybridSearch ready_db name [array_request (js ''vector'')] None =
     (Inr [decode_result [] sample_hit],
      [Search name (hybrid_request_of [Num 1, Num 0] (Num 10))])"
  by (simp add: hybridSearch_ready [OF ensureInitialized_ready_db] sample_client_def)

text \<open>
  The theorem at a connected adapter whose backend reports one hit.
\<close>

theorem result_vectors_witness:
  "search ready_db (js ''code'') [Num 3, Num 4] None =
     (Inr [decode_result [Num 3, Num 4] sample_hit],
      [Search (js ''code'') (search_request_of [Num 3, Num 4] None)]) \<and>
   r_vector (document (decode_result [Num 3, Num 4] sample_hit)) = [Num 3, Num 4] \<and>
   hybridSearch ready_db (js ''code'') [array_request (js ''vector'')] None =
     (Inr [decode_result [] sample_hit],
      [Search (js ''code'') (hybrid_request_of [Num 1, Num 0] (Num 10))]) \<and>
   r_vector (document (decode_result [] sample_hit)) = []"
  using result_vectors
    [of ready_db "js ''code''" "[Num 3, Num 4]" None "[decode_result [Num 3, Num 4] sample_hit]"
      "[Search (js ''code'') (search_request_of [Num 3, Num 4] None)]"
      "[array_request (js ''vector'')]" None "[decode_result [] sample_hit]"
      "[Search (js ''code'') (hybrid_request_of [Num 1, Num 0] (Num 10))]"]
  by (simp add: search_sample hybridSearch_sample decode_result_def)


lemma ensureInitialized_connected: "ensureInitialized (connected c) = Inr c"
  by (simp add: connected_def new_QdrantVectorDatabase_def initializeClient_def
      ensureInitialized_def)

lemma or_json_missing:
  "missing hit field \<Longrightarrow>
   or_json ((case sp_payload hit of None \<Rightarrow> Map.empty | Some p \<Rightarrow> p) field) d = d"
  by (simp add: missing_def split: option.splits)

text \<open>
  C7. A provenance field missing from the payload of a hit of \<open>search\<close> or of
  \<open>hybridSearch\<close> is decoded to its typed default: \<open>content\<close>, \<open>relativePath\<close> and
  \<open>fileExtension\<close> to the empty string, \<open>startLine\<close> and \<open>endLine\<close> to 0, \<open>metadata\<close> to
  the empty mapping. Decoding never fails: whenever the backend answers with hits, the
  operation returns one decoded result per hit, whatever the payloads lack.
\<close>

theorem decode_defaults:
  "(missing hit (js ''content'') \<longrightarrow> r_content (document (decode_result v hit)) = JStr []) \<and>
   (missing hit (js ''relativePath'') \<longrightarrow>
      r_relativePath (document (decode_result v hit)) = JStr []) \<and>
   (missing hit (js ''startLine'') \<longrightarrow>
      r_startLine (document (decode_result v hit)) = JNum (Num 0)) \<and>
   (missing hit (js ''endLine'') \<longrightarrow> r_endLine (document (decode_result v hit)) = JNum (Num 0)) \<and>
   (missing hit (js ''fileExtension'') \<longrightarrow>
      r_fileExtension (document (decode_result v hit)) = JStr []) \<and>
   (missing hit (js ''metadata'') \<longrightarrow> r_metadata (document (decode_result v hit)) = JObj []) \<and>
   (ensureInitialized db = Inr c \<and>
    client_search c name (search_request_of queryVector options) = Inr hits \<longrightarrow>
      fst (search db name queryVector options) = Inr (map (decode_result queryVector) hits)) \<and>
   (ensureInitialized db = Inr c \<and> dense_vector reqs = Some dv \<and>
    client_search c name (hybrid_request_of dv (hybrid_limit reqs hoptions)) = Inr hits \<longrightarrow>
      fst (hybridSearch db name reqs hoptions) = Inr (map (decode_result []) hits))"
  by (simp add: decode_result_def Let_def or_json_missing search_ready hybridSearch_ready)

lemma missing_sample_hit: "missing sample_hit field"
  by (simp add: missing_def sample_hit_def)

lemma missing_partial_hit:
  "missing partial_hit (js ''startLine'')" "missing partial_hit (js ''endLine'')"
  "\<not> missing partial_hit (js ''content'')"
  by (simp_all add: missing_def partial_hit_def js_def)

lemma content_partial_hit:
  "r_content (document (decode_result v partial_hit)) = JStr (js ''const x = 1'')"
  by (simp add: decode_result_def partial_hit_def js_def)

text \<open>
  The theorem at a hit whose payload has \<open>content\<close> only, and at a hit with no payload.
\<close>

theorem decode_defaults_witness:
  "missing partial_hit (js ''startLine'') \<and> missing partial_hit (js ''endLine'') \<and>
   \<not> missing partial_hit (js ''content'') \<and>
   r_startLine (document (decode_result [Num 3] partial_hit)) = JNum (Num 0) \<and>
   r_endLine (document (decode_result [Num 3] partial_hit)) = JNum (Num 0) \<and>
   r_content (document (decode_result [Num 3] partial_hit)) = JStr (js ''const x = 1'') \<and>
   missing sample_hit (js ''metadata'') \<and>
   r_metadata (document (decode_result [] sample_hit)) = JObj [] \<and>
   ensureInitialized ready_db = Inr sample_client \<and>
   client_search sample_client (js ''code'') (search_request_of [Num 3] None) = Inr [sample_hit] \<and>
   fst (search ready_db (js ''code'') [Num 3] None) = Inr [decode_result [Num 3] sample_hit]"
proof -
  have hits: "client_search sample_client (js ''code'') (search_request_of [Num 3] None)
      = Inr [sample_hit]"
    by (simp add: sample_client_def)
  note partial = decode_defaults [of partial_hit "[Num 3]" ready_db sample_client "js ''code''"
      "[Num 3]" None "[sample_hit]"]
  note sample = decode_defaults [of sample_hit "[]"]
  have "r_startLine (document (decode_result [Num 3] partial_hit)) = JNum (Num 0)"
    using partial missing_partial_hit(1) by blast
  moreover have "r_endLine (document (decode_result [Num 3] partial_hit)) = JNum (Num 0)"
    using partial missing_partial_hit(2) by blast
  moreover have "r_metadata (document (decode_result [] sample_hit)) = JObj []"
    using sample missing_sample_hit by blast
  moreover have "fst (search ready_db (js ''code'') [Num 3] None)
      = Inr [decode_result [Num 3] sample_hit]"
    using partial ensureInitialized_ready_db hits by simp
  ultimately show ?thesis
    using missing_partial_hit missing_sample_hit content_partial_hit ensureInitialized_ready_db hits
    by simp
qed

section \<open>Existence of a collection\<close>

lemma starts_with_iff: "starts_with s p \<longleftrightarrow> (\<exists>post. s = p @ post)"
  by (induction s p rule: starts_with.induct) auto

lemma js_includes_iff: "js_includes s needle \<longleftrightarrow> (\<exists>pre post. s = pre @ needle @ post)"
proof (induction s)
  case Nil
  then show ?case by (simp add: starts_with_iff)
next
  case (Cons c cs)
  show ?case
  proof
    assume "js_includes (c # cs) needle"
    then consider "starts_with (c # cs) needle" | "js_includes cs needle" by auto
    then show "\<exists>pre post. c # cs = pre @ needle @ post"
    proof cases
      case 1
      then obtain post where "c # cs = [] @ needle @ post" by (auto simp: starts_with_iff)
      then show ?thesis by blast
    next
      case 2
      then obtain pre post where "cs = pre @ needle @ post" using Cons.IH by blast
      then have "c # cs = (c # pre) @ needle @ post" by simp
      then show ?thesis by blast
    qed
  next
    assume "\<exists>pre post. c # cs = pre @ needle @ post"
    then obtain pre post where eq: "c # cs = pre @ needle @ post" by blast
    show "js_includes (c # cs) needle"
    proof (cases pre)
      case Nil
      with eq have "starts_with (c # cs) needle" by (auto simp: starts_with_iff)
      then show ?thesis by simp
    next
      case (Cons x xs)
      with eq have "cs = xs @ needle @ post" by simp
      then have "js_includes cs needle" using Cons.IH by blast
      then show ?thesis by simp
    qed
  qed
qed

lemma is_not_found_iff:
  "is_not_found err \<longleftrightarrow>
     status err = Some (Num 404) \<or> (\<exists>pre post. message err = Some (pre @ js ''not found'' @ post))"
  by (auto simp: is_not_found_def js_includes_iff split: option.splits)

text \<open>
  C6. Behind the connection gate, \<open>hasCollection\<close> yields true when the backend lookup
  succeeds; false when the lookup fails with status 404 or with a message that contains
  \<^verbatim>\<open>not found\<close>; and every other failure of the lookup propagates to the caller unchanged.
\<close>

theorem hasCollection_outcomes:
  assumes "ensureInitialized db = Inr c"
  shows "(client_getCollection c name = Inr u \<longrightarrow>
            hasCollection db name = (Inr True, [GetCollection name])) \<and>
         (client_getCollection c name = Inl err \<and>
          (status err = Some (Num 404) \<or>
           (\<exists>pre post. message err = Some (pre @ js ''not found'' @ post))) \<longrightarrow>
            hasCollection db name = (Inr False, [GetCollection name])) \<and>
         (client_getCollection c name = Inl err \<and> status err \<noteq> Some (Num 404) \<and>
          (\<forall>pre post. message err \<noteq> Some (pre @ js ''not found'' @ post)) \<longrightarrow>
            hasCollection db name = (Inl err, [GetCollection name]))"
  using assms by (auto simp: hasCollection_def is_not_found_iff)

lemma lookup_getCollection: "client_getCollection (lookup_client answer) name = answer"
  by (simp add: lookup_client_def)

lemma not_found_message: "js_includes (js ''Collection code not found'') (js ''not found'')"
  by (simp add: js_def)

lemma internal_error_message:
  "\<not> js_includes (js ''Internal Server Error'') (js ''not found'')"
  by (simp add: js_def)

text \<open>
  The theorem at four backends: a lookup that succeeds, one that fails with status 404,
  one that fails with a not-found message and no status, and one that fails with status 500.
\<close>

theorem hasCollection_outcomes_witness:
  "ensureInitialized (connected (lookup_client (Inr ()))) = Inr (lookup_client (Inr ())) \<and>
   hasCollection (connected (lookup_client (Inr ()))) (js ''code'')
     = (Inr True, [GetCollection (js ''code'')]) \<and>
   hasCollection
     (connected (lookup_client (Inl \<lparr>status = Some (Num 404), message = Some (js ''Not Found'')\<rparr>)))
     (js ''code'') = (Inr False, [GetCollection (js ''code'')]) \<and>
   hasCollection
     (connected (lookup_client
        (Inl \<lparr>status = None, message = Some (js ''Collection code not found'')\<rparr>)))
     (js ''code'') = (Inr False, [GetCollection (js ''code'')]) \<and>
   hasCollection
     (connected (lookup_client
        (Inl \<lparr>status = Some (Num 500), message = Some (js ''Internal Server Error'')\<rparr>)))
     (js ''code'')
     = (Inl \<lparr>status = Some (Num 500), message = Some (js ''Internal Server Error'')\<rparr>,
        [GetCollection (js ''code'')])"
proof -
  have a: "hasCollection (connected (lookup_client (Inr ()))) (js ''code'')
      = (Inr True, [GetCollection (js ''code'')])"
    using hasCollection_outcomes [OF ensureInitialized_connected, of "lookup_client (Inr ())"
        "js ''code''" "()"]
    by (simp add: lookup_getCollection)
  have b: "hasCollection
     (connected (lookup_client (Inl \<lparr>status = Some (Num 404), message = Some (js ''Not Found'')\<rparr>)))
     (js ''code'') = (Inr False, [GetCollection (js ''code'')])"
    using hasCollection_outcomes [OF ensureInitialized_connected,
        of "lookup_client (Inl \<lparr>status = Some (Num 404), message = Some (js ''Not Found'')\<rparr>)"
        "js ''code''" _ "\<lparr>status = Some (Num 404), message = Some (js ''Not Found'')\<rparr>"]
    by (simp add: lookup_getCollection)
  have "\<exists>pre post. js ''Collection code not found'' = pre @ js ''not found'' @ post"
    using not_found_message by (simp add: js_includes_iff)
  then have c: "hasCollection
     (connected (lookup_client
        (Inl \<lparr>status = None, message = Some (js ''Collection code not found'')\<rparr>)))
     (js ''code'') = (Inr False, [GetCollection (js ''code'')])"
    using hasCollection_outcomes [OF ensureInitialized_connected,
        of "lookup_client (Inl \<lparr>status = None, message = Some (js ''Collection code not found'')\<rparr>)"
        "js ''code''" _ "\<lparr>status = None, message = Some (js ''Collection code not found'')\<rparr>"]
    by (simp add: lookup_getCollection)
  have "\<forall>pre post. js ''Internal Server Error'' \<noteq> pre @ js ''not found'' @ post"
    using internal_error_message by (simp add: js_includes_iff)
  then have d: "hasCollection
     (connected (lookup_client
        (Inl \<lparr>status = Some (Num 500), message = Some (js ''Internal Server Error'')\<rparr>)))
     (js ''code'')
     = (Inl \<lparr>status = Some (Num 500), message = Some (js ''Internal Server Error'')\<rparr>,
        [GetCollection (js ''code'')])"
    using hasCollection_outcomes [OF ensureInitialized_connected,
        of "lookup_client (Inl \<lparr>status = Some (Num 500), message = Some (js ''Internal Server Error'')\<rparr>)"
        "js ''code''" _ "\<lparr>status = Some (Num 500), message = Some (js ''Internal Server Error'')\<rparr>"]
    by (simp add: lookup_getCollection)
  show ?thesis using a b c d by (simp add: ensureInitialized_connected)
qed

section \<open>Search options\<close>

text \<open>
  C5 (as amended). \<open>topK\<close> defaults to 10 when the caller omits it or passes a falsy number
  (0 or \<^verbatim>\<open>NaN\<close>), and \<open>threshold\<close> defaults to 0 when omitted or falsy. Behind the
  connection gate \<open>search\<close> issues exactly one backend search, which carries that limit
  and that score threshold; it returns one result per hit the backend reports, in the
  backend's order and with the backend's scores, so it returns at most \<open>limit\<close> results,
  each with a score at or above the threshold, whenever the backend honours the request;
  and it returns the empty sequence when the backend reports no hit.
\<close>

theorem search_request_and_results:
  "sr_limit (search_request_of queryVector options) =
     (case options of
        None \<Rightarrow> Num 10
      | Some opts \<Rightarrow>
          (case topK opts of None \<Rightarrow> Num 10 | Some k \<Rightarrow> if number_truthy k then k else Num 10)) \<and>
   sr_score_threshold (search_request_of queryVector options) =
     Some (case options of
             None \<Rightarrow> Num 0
           | Some opts \<Rightarrow>
               (case threshold opts of
                  None \<Rightarrow> Num 0
                | Some t \<Rightarrow> if number_truthy t then t else Num 0)) \<and>
   (ensureInitialized db = Inr c \<longrightarrow>
      snd (search db name queryVector options) = [Search name (search_request_of queryVector options)] \<and>
      (\<forall>hits. client_search c name (search_request_of queryVector options) = Inr hits \<longrightarrow>
         (\<exists>results. fst (search db name queryVector options) = Inr results \<and>
            length results = length hits \<and> map score results = map sp_score hits)) \<and>
      (client_search c name (search_request_of queryVector options) = Inr [] \<longrightarrow>
         fst (search db name queryVector options) = Inr []))"
  by (simp add: search_request_of_def search_limit_def search_scoreThreshold_def search_ready
      decode_result_def Let_def comp_def split: option.splits)

text \<open>
  C5 as stated fails: the caller passes \<open>topK = 0\<close>, the request asks for 10 results
  (\<^verbatim>\<open>options?.topK || 10\<close>) and one result comes back, more than \<open>topK\<close>.
\<close>

theorem topK_zero_searches_ten:
  "topK zero_topK = Some (Num 0) \<and>
   search ready_db (js ''code'') [Num 1] (Some zero_topK) =
     (Inr [decode_result [Num 1] sample_hit],
      [Search (js ''code'')
         \<lparr>sr_vector = BareVector [Num 1], sr_limit = Num 10, sr_score_threshold = Some (Num 0),
          sr_with_payload = True, sr_with_vector = False\<rparr>])"
  by (simp add: search_sample search_request_of_def search_limit_def search_scoreThreshold_def
      zero_topK_def)

text \<open>
  The theorem at a connected adapter, with \<open>topK = 5\<close> and \<open>threshold = 1/2\<close> and with
  no options.
\<close>

theorem search_request_and_results_witness:
  "ensureInitialized ready_db = Inr sample_client \<and>
   client_search sample_client (js ''code'') (search_request_of [Num 1] (Some five_topK))
     = Inr [sample_hit] \<and>
   sr_limit (search_request_of [Num 1] (Some five_topK)) = Num 5 \<and>
   sr_score_threshold (search_request_of [Num 1] (Some five_topK)) = Some (Num (1 / 2)) \<and>
   sr_limit (search_request_of [Num 1] None) = Num 10 \<and>
   sr_score_threshold (search_request_of [Num 1] None) = Some (Num 0) \<and>
   snd (search ready_db (js ''code'') [Num 1] (Some five_topK))
     = [Search (js ''code'') (search_request_of [Num 1] (Some five_topK))] \<and>
   (\<exists>results. fst (search ready_db (js ''code'') [Num 1] (Some five_topK)) = Inr results \<and>
      length results = 1 \<and> map score results = [Num 1])"
proof -
  have hits: "client_search sample_client (js ''code'') (search_request_of [Num 1] (Some five_topK))
      = Inr [sample_hit]"
    by (simp add: sample_client_def)
  note five = search_request_and_results [of "[Num 1]" "Some five_topK" ready_db sample_client
      "js ''code''"]
  note none = search_request_and_results [of "[Num 1]" None]
  have "sr_limit (search_request_of [Num 1] (Some five_topK)) = Num 5"
    using five by (simp add: five_topK_def)
  moreover have "sr_score_threshold (search_request_of [Num 1] (Some five_topK)) = Some (Num (1 / 2))"
    using five by (simp add: five_topK_def)
  moreover have "sr_limit (search_request_of [Num 1] None) = Num 10"
    and "sr_score_threshold (search_request_of [Num 1] None) = Some (Num 0)"
    using none by simp_all
  moreover have "snd (search ready_db (js ''code'') [Num 1] (Some five_topK))
     = [Search (js ''code'') (search_request_of [Num 1] (Some five_topK))]"
    using five ensureInitialized_ready_db by blast
  moreover have "\<exists>results. fst (search ready_db (js ''code'') [Num 1] (Some five_topK)) = Inr results \<and>
      length results = 1 \<and> map score results = [Num 1]"
    using five ensureInitialized_ready_db hits by (simp add: sample_hit_def)
  ultimately show ?thesis
    using ensureInitialized_ready_db hits by simp
qed

section \<open>Hybrid search\<close>

lemma find_first:
  "\<lbrakk>\<forall>r \<in> set pre. \<not> P r; P d\<rbrakk> \<Longrightarrow> find P (pre @ d # post) = Some d"
  by (induction pre) auto

lemma find_none: "\<forall>r \<in> set xs. \<not> P r \<Longrightarrow> find P xs = None"
  by (simp add: find_None_iff)

lemma dense_vector_first:
  "\<lbrakk>\<forall>r \<in> set pre. anns_field r \<noteq> js ''vector''; anns_field dense = js ''vector''\<rbrakk>
   \<Longrightarrow> dense_vector (pre @ dense # post)
       = (case data dense of ArrayData v \<Rightarrow> Some v | TextData t \<Rightarrow> None)"
  by (simp add: dense_vector_def find_first)

lemma dense_vector_none:
  "\<forall>r \<in> set reqs. anns_field r \<noteq> js ''vector'' \<Longrightarrow> dense_vector reqs = None"
  by (simp add: dense_vector_def find_none)

text \<open>
  C2 (as amended). Behind the connection gate, a \<open>hybridSearch\<close> whose request list has
  no request with \<open>anns_field\<close> \<^verbatim>\<open>'vector'\<close> fails with \<open>InvalidRequest\<close> and issues no
  backend call. When the first such request carries an array as its data, exactly one
  backend search is issued, on that array, and the operation returns the backend's hits
  decoded in the backend's order, or the backend's error.
\<close>

theorem hybridSearch_requires_dense:
  assumes "ensureInitialized db = Inr c"
  shows "((\<forall>r \<in> set reqs. anns_field r \<noteq> js ''vector'') \<longrightarrow>
            hybridSearch db name reqs options = (Inl InvalidRequest, [])) \<and>
         (reqs = pre @ dense # post \<and> (\<forall>r \<in> set pre. anns_field r \<noteq> js ''vector'') \<and>
          anns_field dense = js ''vector'' \<and> data dense = ArrayData v \<longrightarrow>
            hybridSearch db name reqs options =
              ((case client_search c name (hybrid_request_of v (hybrid_limit reqs options)) of
                  Inl e \<Rightarrow> Inl e
                | Inr hits \<Rightarrow> Inr (map (decode_result []) hits)),
               [Search name (hybrid_request_of v (hybrid_limit reqs options))]))"
  by (auto simp: hybridSearch_ready [OF assms] dense_vector_none dense_vector_first)

lemma dense_vector_text [simp]: "dense_vector [text_request] = None"
  by (simp add: dense_vector_def text_request_def)

lemma dense_vector_wrong_field [simp]: "dense_vector [array_request (js ''dense'')] = None"
  by (simp add: dense_vector_def array_request_def js_def)

lemma anns_field_text_request: "anns_field text_request = js ''vector''"
  by (simp add: text_request_def)

lemma data_text_request: "data text_request = TextData (js ''parse filter'')"
  by (simp add: text_request_def)

lemma array_request_fields:
  "anns_field (array_request field) = field" "data (array_request field) = ArrayData [Num 1, Num 0]"
  by (simp_all add: array_request_def)

lemma dense_is_not_vector: "js ''dense'' \<noteq> js ''vector''"
  by (simp add: js_def)

text \<open>
  C2 as stated fails: the list holds a request that targets the dense field, with a text
  query as its data, and no backend search is issued.
\<close>

theorem text_dense_request_rejected:
  "anns_field text_request = js ''vector'' \<and>
   hybridSearch ready_db (js ''code'') [text_request] None = (Inl InvalidRequest, [])"
  by (simp add: hybridSearch_ready [OF ensureInitialized_ready_db] anns_field_text_request)

text \<open>
  The theorem at a connected adapter: a list with a \<^verbatim>\<open>'dense'\<close> request only is
  rejected, a list with a \<^verbatim>\<open>'vector'\<close> request after it is searched.
\<close>

theorem hybridSearch_requires_dense_witness:
  "ensureInitialized ready_db = Inr sample_client \<and>
   anns_field (array_request (js ''dense'')) \<noteq> js ''vector'' \<and>
   hybridSearch ready_db (js ''code'') [array_request (js ''dense'')] None
     = (Inl InvalidRequest, []) \<and>
   anns_field (array_request (js ''vector'')) = js ''vector'' \<and>
   data (array_request (js ''vector'')) = ArrayData [Num 1, Num 0] \<and>
   hybridSearch ready_db (js ''code'') [array_request (js ''dense''), array_request (js ''vector'')] None
     = (Inr [decode_result [] sample_hit],
        [Search (js ''code'') (hybrid_request_of [Num 1, Num 0] (Num 10))])"
proof -
  note none = hybridSearch_requires_dense [OF ensureInitialized_ready_db,
      of "[array_request (js ''dense'')]" "js ''code''" None]
  note some = hybridSearch_requires_dense [OF ensureInitialized_ready_db,
      of "[array_request (js ''dense''), array_request (js ''vector'')]" "js ''code''" None
        "[array_request (js ''dense'')]" "array_request (js ''vector'')" "[]" "[Num 1, Num 0]"]
  have limit: "hybrid_limit [array_request (js ''dense''), array_request (js ''vector'')] None = Num 10"
    by (simp add: hybrid_limit_def array_request_def)
  have "hybridSearch ready_db (js ''code'') [array_request (js ''dense'')] None
     = (Inl InvalidRequest, [])"
    using none by (simp add: array_request_fields dense_is_not_vector)
  moreover have "hybridSearch ready_db (js ''code'')
      [array_request (js ''dense''), array_request (js ''vector'')] None
     = (Inr [decode_result [] sample_hit],
        [Search (js ''code'') (hybrid_request_of [Num 1, Num 0] (Num 10))])"
    using some by (simp add: array_request_fields dense_is_not_vector limit sample_client_def)
  ultimately show ?thesis
    by (simp add: ensureInitialized_ready_db array_request_fields dense_is_not_vector)
qed

text \<open>
  C9 (as amended). \<open>hybridSearch\<close> takes as the dense request the first request whose
  \<open>anns_field\<close> is the literal \<^verbatim>\<open>'vector'\<close>, whatever its data, skipping every request
  with another field name. When the data of that request is an array, the one backend
  search goes to the named vector \<^verbatim>\<open>'dense'\<close> with that array; when it is not, the call
  fails exactly as with no request at all, whatever requests follow. A list without a
  \<^verbatim>\<open>'vector'\<close> request fails, also when its request is named \<^verbatim>\<open>'dense'\<close>.
\<close>

theorem hybridSearch_dense_selection:
  assumes "ensureInitialized db = Inr c"
  shows "(reqs = pre @ dense # post \<and> (\<forall>r \<in> set pre. anns_field r \<noteq> js ''vector'') \<and>
          anns_field dense = js ''vector'' \<longrightarrow>
            (case data dense of
               ArrayData v \<Rightarrow>
                 snd (hybridSearch db name reqs options) =
                   [Search name
                      \<lparr>sr_vector = NamedVector (js ''dense'') v,
                       sr_limit = hybrid_limit reqs options,
                       sr_score_threshold = None,
                       sr_with_payload = True,
                       sr_with_vector = False\<rparr>]
             | TextData t \<Rightarrow>
                 hybridSearch db name reqs options = (Inl InvalidRequest, []) \<and>
                 hybridSearch db name reqs options = hybridSearch db name [] options)) \<and>
         ((\<forall>r \<in> set reqs. anns_field r \<noteq> js ''vector'') \<longrightarrow>
            hybridSearch db name reqs options = (Inl InvalidRequest, [])) \<and>
         hybridSearch db name [array_request (js ''dense'')] options = (Inl InvalidRequest, [])"
  by (auto simp: hybridSearch_ready [OF assms] dense_vector_none dense_vector_first
      hybrid_request_of_def dense_vector_def [of "[]"] split: request_data.splits)

text \<open>
  The theorem at two lists: \<^verbatim>\<open>'dense'\<close>, \<^verbatim>\<open>'vector'\<close> with an array, then a text
  request; and a text request named \<^verbatim>\<open>'vector'\<close> before an array request.
\<close>

theorem hybridSearch_dense_selection_witness:
  "ensureInitialized ready_db = Inr sample_client \<and>
   snd (hybridSearch ready_db (js ''code'')
          [array_request (js ''dense''), array_request (js ''vector''), text_request] None)
     = [Search (js ''code'')
          \<lparr>sr_vector = NamedVector (js ''dense'') [Num 1, Num 0], sr_limit = Num 10,
           sr_score_threshold = None, sr_with_payload = True, sr_with_vector = False\<rparr>] \<and>
   hybridSearch ready_db (js ''code'') [text_request, array_request (js ''vector'')] None
     = (Inl InvalidRequest, [])"
proof -
  note accepted = hybridSearch_dense_selection [OF ensureInitialized_ready_db,
      of "[array_request (js ''dense''), array_request (js ''vector''), text_request]"
        "[array_request (js ''dense'')]" "array_request (js ''vector'')" "[text_request]"
        "js ''code''" None]
  note rejected = hybridSearch_dense_selection [OF ensureInitialized_ready_db,
      of "[text_request, array_request (js ''vector'')]" "[]" text_request
        "[array_request (js ''vector'')]" "js ''code''" None]
  have limit: "hybrid_limit
      [array_request (js ''dense''), array_request (js ''vector''), text_request] None = Num 10"
    by (simp add: hybrid_limit_def array_request_def)
  have "snd (hybridSearch ready_db (js ''code'')
          [array_request (js ''dense''), array_request (js ''vector''), text_request] None)
     = [Search (js ''code'')
          \<lparr>sr_vector = NamedVector (js ''dense'') [Num 1, Num 0], sr_limit = Num 10,
           sr_score_threshold = None, sr_with_payload = True, sr_with_vector = False\<rparr>]"
    using accepted by (simp add: array_request_fields dense_is_not_vector limit)
  moreover have "hybridSearch ready_db (js ''code'') [text_request, array_request (js ''vector'')] None
     = (Inl InvalidRequest, [])"
    using rejected by (simp add: anns_field_text_request data_text_request)
  ultimately show ?thesis by (simp add: ensureInitialized_ready_db)
qed

lemma dense_vector_text_first:
  "dense_vector [text_request, array_request (js ''vector'')] = None"
  by (simp add: dense_vector_def text_request_def)

text \<open>
  C9 as stated fails: the second request is the first one that is named \<^verbatim>\<open>'vector'\<close>
  and carries an array, yet it is not taken as the dense request; the first request named
  \<^verbatim>\<open>'vector'\<close> carries a text, and the call fails without a backend search.
\<close>

theorem later_array_request_not_selected:
  "anns_field text_request = js ''vector'' \<and>
   data text_request = TextData (js ''parse filter'') \<and>
   anns_field (array_request (js ''vector'')) = js ''vector'' \<and>
   data (array_request (js ''vector'')) = ArrayData [Num 1, Num 0] \<and>
   hybridSearch ready_db (js ''code'') [text_request, array_request (js ''vector'')] None
     = (Inl InvalidRequest, [])"
  by (simp add: hybridSearch_ready [OF ensureInitialized_ready_db] dense_vector_text_first
      anns_field_text_request array_request_fields data_text_request)

section \<open>The connection gate\<close>

lemma invoke_gate_closed: "ensureInitialized db = Inl e \<Longrightarrow> invoke db opn = (Some e, [])"
  by (cases opn)
    (simp_all add: observed_def createCollection_def createHybridCollection_def
      dropCollection_def hasCollection_def listCollections_def insert_docs_def
      insertHybrid_def search_def hybridSearch_def delete_ids_def query_def)

lemma backend_trace: "snd (backend call answer f) = [call]"
  by (simp add: backend_def split: sum.splits)

lemma invoke_gate_open:
  "\<lbrakk>ensureInitialized db = Inr c; \<not> rejected_before_backend opn\<rbrakk>
   \<Longrightarrow> \<exists>call. snd (invoke db opn) = [call]"
  by (cases opn)
    (auto simp: observed_def createCollection_def createHybridCollection_def
      dropCollection_def hasCollection_def listCollections_def insert_docs_def
      insertHybrid_def search_def hybridSearch_ready delete_ids_def query_def backend_trace Let_def
      split: sum.splits)

lemma constructor_sets_client:
  "client (new_QdrantVectorDatabase new_QdrantClient cfg) = None \<longleftrightarrow>
   initializationPromise (new_QdrantVectorDatabase new_QdrantClient cfg) \<noteq> None"
  by (simp add: new_QdrantVectorDatabase_def split: sum.splits)

text \<open>
  C3 (as amended). For every public operation: if the setup failed, the operation fails
  with the error of the setup, rethrown by awaiting \<open>initializationPromise\<close>; if the setup
  completed and left no client handle, the operation fails with \<open>NotInitialized\<close>; in both
  cases before any backend call. If the setup succeeded, the operation issues its backend
  call, unless it is a \<open>hybridSearch\<close> without an acceptable dense request.
\<close>

theorem connection_gate:
  "(initializationPromise db = Some e \<longrightarrow> invoke db opn = (Some e, [])) \<and>
   (initializationPromise db = None \<and> client db = None \<longrightarrow>
      invoke db opn = (Some NotInitialized, [])) \<and>
   (initializationPromise db = None \<and> client db = Some c \<and> \<not> rejected_before_backend opn \<longrightarrow>
      (\<exists>call. snd (invoke db opn) = [call])) \<and>
   (initializeClient new_QdrantClient cfg = Inl e \<longrightarrow>
      invoke (new_QdrantVectorDatabase new_QdrantClient cfg) opn = (Some e, []))"
proof -
  have "invoke db opn = (Some e, [])" if "initializationPromise db = Some e"
    using that by (intro invoke_gate_closed) (simp add: ensureInitialized_def)
  moreover have "invoke db opn = (Some NotInitialized, [])"
    if "initializationPromise db = None" "client db = None"
    using that by (intro invoke_gate_closed) (simp add: ensureInitialized_def)
  moreover have "\<exists>call. snd (invoke db opn) = [call]"
    if "initializationPromise db = None" "client db = Some c" "\<not> rejected_before_backend opn"
    using that by (intro invoke_gate_open [of db c]) (simp_all add: ensureInitialized_def)
  moreover have "invoke (new_QdrantVectorDatabase new_QdrantClient cfg) opn = (Some e, [])"
    if "initializeClient new_QdrantClient cfg = Inl e"
    using that
    by (intro invoke_gate_closed) (simp add: ensureInitialized_def new_QdrantVectorDatabase_def)
  ultimately show ?thesis by blast
qed

lemma handleless_db_state:
  "initializationPromise handleless_db = None" "client handleless_db = None"
  by (simp_all add: handleless_db_def)

lemma failed_db_state:
  "initializationPromise failed_db = Some (Error ''Invalid client configuration'')"
  "client failed_db = None"
  by (simp_all add: failed_db_def new_QdrantVectorDatabase_def initializeClient_def
      rejecting_QdrantClient_def)

lemma ready_db_state: "initializationPromise ready_db = None" "client ready_db = Some sample_client"
  by (simp_all add: ready_db_def new_QdrantVectorDatabase_def initializeClient_def
      accepting_QdrantClient_def)

lemma setup_error_differs: "Error ''Invalid client configuration'' \<noteq> NotInitialized"
  by (simp add: NotInitialized_def Error_def js_def)

text \<open>
  C3 as stated fails: the setup failed, and the operation fails with the error the
  client's constructor threw, which is not \<open>NotInitialized\<close>.
\<close>

theorem failed_setup_error_rethrown:
  "initializationPromise failed_db = Some (Error ''Invalid client configuration'') \<and>
   client failed_db = None \<and>
   invoke failed_db CallListCollections = (Some (Error ''Invalid client configuration''), []) \<and>
   Error ''Invalid client configuration'' \<noteq> NotInitialized"
  using invoke_gate_closed [OF ensureInitialized_failed_db, of CallListCollections]
  by (simp add: failed_db_state setup_error_differs del: invoke.simps)

text \<open>
  The theorem at an adapter whose client constructor threw, at a state with a fulfilled
  setup and no handle, and at a connected adapter.
\<close>

theorem connection_gate_witness:
  "initializationPromise failed_db = Some (Error ''Invalid client configuration'') \<and>
   invoke failed_db (CallSearch (js ''code'') [Num 1] None)
     = (Some (Error ''Invalid client configuration''), []) \<and>
   initializationPromise handleless_db = None \<and> client handleless_db = None \<and>
   invoke handleless_db (CallSearch (js ''code'') [Num 1] None) = (Some NotInitialized, []) \<and>
   initializationPromise ready_db = None \<and> client ready_db = Some sample_client \<and>
   \<not> rejected_before_backend (CallSearch (js ''code'') [Num 1] None) \<and>
   (\<exists>call. snd (invoke ready_db (CallSearch (js ''code'') [Num 1] None)) = [call])"
proof -
  have "invoke failed_db (CallSearch (js ''code'') [Num 1] None)
     = (Some (Error ''Invalid client configuration''), [])"
    using connection_gate [of failed_db "Error ''Invalid client configuration''"] failed_db_state
    by blast
  moreover have "invoke handleless_db (CallSearch (js ''code'') [Num 1] None)
      = (Some NotInitialized, [])"
    using connection_gate [of handleless_db _ "CallSearch (js ''code'') [Num 1] None"]
      handleless_db_state
    by blast
  moreover have "\<exists>call. snd (invoke ready_db (CallSearch (js ''code'') [Num 1] None)) = [call]"
    using connection_gate [of ready_db _ "CallSearch (js ''code'') [Num 1] None" sample_client]
      ready_db_state
    by (simp del: invoke.simps)
  ultimately show ?thesis
    by (simp add: failed_db_state ready_db_state handleless_db_state del: invoke.simps)
qed

section \<open>The filter of a query\<close>

lemma strip_prefix_iff: "strip_prefix p s = Some r \<longleftrightarrow> s = p @ r"
  by (induction p s rule: strip_prefix.induct) auto

lemma strip_prefix_append [simp]: "strip_prefix p (p @ r) = Some r"
  by (simp add: strip_prefix_iff)

lemma keyword_codes: "js ''relativePath'' = [114, 101, 108, 97, 116, 105, 118, 101, 80, 97, 116, 104]"
  by (simp add: js_def)

lemma equals_codes: "js ''=='' = [61, 61]"
  by (simp add: js_def)

lemma not_whitespace_61: "\<not> is_whitespace 61"
  by (simp add: is_whitespace_def)

lemma not_whitespace_34: "\<not> is_whitespace 34"
  by (simp add: is_whitespace_def)

lemma not_whitespace_114: "\<not> is_whitespace 114"
  by (simp add: is_whitespace_def)

lemma skip_whitespace:
  "\<lbrakk>list_all is_whitespace ws; \<not> is_whitespace c\<rbrakk>
   \<Longrightarrow> dropWhile is_whitespace (ws @ c # rest) = c # rest"
  by (induction ws) auto

lemma take_literal: "34 \<notin> set lit \<Longrightarrow> takeWhile (\<lambda>c. c \<noteq> 34) (lit @ 34 # post) = lit"
  by (induction lit) auto

lemma drop_literal: "34 \<notin> set lit \<Longrightarrow> dropWhile (\<lambda>c. c \<noteq> 34) (lit @ 34 # post) = 34 # post"
  by (induction lit) auto

lemma regexp_at_clause:
  assumes "well_formed_clause ws1 ws2 lit"
  shows "regexp_at (path_clause ws1 ws2 lit @ post) = Some lit"
proof -
  from assms have ws1: "list_all is_whitespace ws1" and ws2: "list_all is_whitespace ws2"
    and lit: "lit \<noteq> []" "34 \<notin> set lit"
    by (simp_all add: well_formed_clause_def)
  have s1: "strip_prefix (js ''relativePath'') (path_clause ws1 ws2 lit @ post)
      = Some (ws1 @ js ''=='' @ ws2 @ 34 # lit @ 34 # post)"
    by (simp add: path_clause_def strip_prefix_iff)
  have s2: "dropWhile is_whitespace (ws1 @ js ''=='' @ ws2 @ 34 # lit @ 34 # post)
      = js ''=='' @ ws2 @ 34 # lit @ 34 # post"
    using skip_whitespace [OF ws1 not_whitespace_61] by (simp add: equals_codes)
  have s3: "dropWhile is_whitespace (ws2 @ 34 # lit @ 34 # post) = 34 # lit @ 34 # post"
    using skip_whitespace [OF ws2 not_whitespace_34] by simp
  show ?thesis
    unfolding regexp_at_def s1 option.case s2 strip_prefix_append s3 list.case
    using lit by (simp add: take_literal drop_literal)
qed

lemma regexp_at_sound:
  assumes "regexp_at s = Some lit"
  shows "\<exists>ws1 ws2 post. s = path_clause ws1 ws2 lit @ post \<and> well_formed_clause ws1 ws2 lit"
proof -
  from assms obtain r1 where r1: "s = js ''relativePath'' @ r1"
    by (auto simp: regexp_at_def strip_prefix_iff split: option.splits)
  with assms obtain r2 where r2: "dropWhile is_whitespace r1 = js ''=='' @ r2"
    by (auto simp: regexp_at_def strip_prefix_iff split: option.splits)
  with assms r1 obtain r3 where r3: "dropWhile is_whitespace r2 = 34 # r3"
    by (auto simp: regexp_at_def split: option.splits list.splits if_splits)
  with assms r1 r2 obtain q post where
    post: "dropWhile (\<lambda>c. c \<noteq> 34) r3 = q # post" and lit: "lit = takeWhile (\<lambda>c. c \<noteq> 34) r3"
      and ne: "lit \<noteq> []"
    by (auto simp: regexp_at_def Let_def split: option.splits list.splits if_splits)
  from post have q: "q = 34"
    using hd_dropWhile [of "\<lambda>c. c \<noteq> 34" r3] by auto
  define ws1 where "ws1 = takeWhile is_whitespace r1"
  define ws2 where "ws2 = takeWhile is_whitespace r2"
  have "r1 = ws1 @ js ''=='' @ r2"
    using takeWhile_dropWhile_id [of is_whitespace r1] r2 by (simp add: ws1_def)
  moreover have "r2 = ws2 @ 34 # r3"
    using takeWhile_dropWhile_id [of is_whitespace r2] r3 by (simp add: ws2_def)
  moreover have "r3 = lit @ 34 # post"
    using takeWhile_dropWhile_id [of "\<lambda>c. c \<noteq> 34" r3] post lit q by simp
  ultimately have "s = path_clause ws1 ws2 lit @ post"
    using r1 by (simp add: path_clause_def)
  moreover have "list_all is_whitespace ws1" "list_all is_whitespace ws2"
    by (auto simp: ws1_def ws2_def list_all_iff dest: set_takeWhileD)
  moreover have "34 \<notin> set lit"
    using lit by (auto dest: set_takeWhileD)
  ultimately show ?thesis
    using ne by (auto simp: well_formed_clause_def)
qed

lemma pathMatch_sound:
  "pathMatch s = Some lit \<Longrightarrow>
   \<exists>pre ws1 ws2 post. s = pre @ path_clause ws1 ws2 lit @ post \<and> well_formed_clause ws1 ws2 lit"
proof (induction s)
  case Nil
  then obtain ws1 ws2 post where "[] = path_clause ws1 ws2 lit @ post"
    using regexp_at_sound [of "[]" lit] by auto
  then show ?case by (simp add: path_clause_def keyword_codes)
next
  case (Cons c cs)
  show ?case
  proof (cases "regexp_at (c # cs)")
    case None
    with Cons.prems have "pathMatch cs = Some lit" by simp
    then obtain pre ws1 ws2 post where
      "cs = pre @ path_clause ws1 ws2 lit @ post" "well_formed_clause ws1 ws2 lit"
      using Cons.IH by blast
    then have "c # cs = (c # pre) @ path_clause ws1 ws2 lit @ post" by simp
    with \<open>well_formed_clause ws1 ws2 lit\<close> show ?thesis by blast
  next
    case (Some l)
    with Cons.prems have "regexp_at (c # cs) = Some lit" by simp
    then obtain ws1 ws2 post where
      "c # cs = [] @ path_clause ws1 ws2 lit @ post" "well_formed_clause ws1 ws2 lit"
      using regexp_at_sound by fastforce
    then show ?thesis by blast
  qed
qed

lemma pathMatch_start: "regexp_at s = Some lit \<Longrightarrow> pathMatch s = Some lit"
  by (cases s) simp_all

lemma pathMatch_suffix: "pathMatch s \<noteq> None \<Longrightarrow> pathMatch (pre @ s) \<noteq> None"
  by (induction pre) (auto split: option.splits)

lemma pathMatch_complete:
  assumes "well_formed_clause ws1 ws2 lit"
  shows "pathMatch (pre @ path_clause ws1 ws2 lit @ post) \<noteq> None"
proof -
  have "pathMatch (path_clause ws1 ws2 lit @ post) = Some lit"
    by (rule pathMatch_start [OF regexp_at_clause [OF assms]])
  then have "pathMatch (path_clause ws1 ws2 lit @ post) \<noteq> None" by simp
  then show ?thesis by (rule pathMatch_suffix)
qed

lemma pathMatch_skip:
  "(\<And>j. j < length pre \<Longrightarrow> regexp_at (drop j (pre @ s)) = None)
   \<Longrightarrow> pathMatch (pre @ s) = pathMatch s"
proof (induction pre)
  case Nil
  then show ?case by simp
next
  case (Cons a pre)
  have "regexp_at (drop 0 ((a # pre) @ s)) = None"
    by (rule Cons.prems) simp
  then have "pathMatch ((a # pre) @ s) = pathMatch (pre @ s)" by simp
  moreover have "pathMatch (pre @ s) = pathMatch s"
  proof (rule Cons.IH)
    fix j assume "j < length pre"
    then have "regexp_at (drop (Suc j) ((a # pre) @ s)) = None"
      by (intro Cons.prems) simp
    then show "regexp_at (drop j (pre @ s)) = None" by simp
  qed
  ultimately show ?case by simp
qed

lemma trim_eq_Nil: "trim s = [] \<longleftrightarrow> (\<forall>c \<in> set s. is_whitespace c)"
proof
  assume "trim s = []"
  then have "\<forall>c \<in> set (dropWhile is_whitespace s). is_whitespace c"
    by (simp add: trim_def)
  moreover have "\<forall>c \<in> set (takeWhile is_whitespace s). is_whitespace c"
    by (auto dest: set_takeWhileD)
  moreover have "set s = set (takeWhile is_whitespace s) \<union> set (dropWhile is_whitespace s)"
    by (metis set_append takeWhile_dropWhile_id)
  ultimately show "\<forall>c \<in> set s. is_whitespace c" by blast
next
  assume "\<forall>c \<in> set s. is_whitespace c"
  then have d: "dropWhile is_whitespace s = []" by simp
  show "trim s = []" unfolding trim_def d by simp
qed

lemma pathMatch_not_blank:
  assumes "pathMatch s = Some lit"
  shows "s \<noteq> [] \<and> trim s \<noteq> []"
proof -
  from pathMatch_sound [OF assms] obtain pre ws1 ws2 post where
    "s = pre @ path_clause ws1 ws2 lit @ post" by blast
  then have "114 \<in> set s" by (simp add: path_clause_def keyword_codes)
  then show ?thesis using not_whitespace_114 by (auto simp: trim_eq_Nil)
qed

lemma qdrantFilter_eq:
  "qdrantFilter f =
     (case pathMatch f of
        None \<Rightarrow> None
      | Some lit \<Rightarrow> Some (Must [\<lparr>key = js ''relativePath'', match_value = lit\<rparr>]))"
  using pathMatch_not_blank [of f]
  by (cases "pathMatch f") (auto simp: qdrantFilter_def)

lemma query_ready:
  "ensureInitialized db = Inr c \<Longrightarrow>
   query db name f outputFields limit =
     ((case client_scroll c name (scroll_request_of f limit) of
         Inl e \<Rightarrow> Inl e
       | Inr points \<Rightarrow> Inr (map (query_point outputFields) points)),
      [Scroll name (scroll_request_of f limit)])"
  by (simp add: query_def backend_def Let_def split: sum.splits)

lemma qdrantFilter_Nil: "qdrantFilter [] = None"
  by (simp add: qdrantFilter_def)

text \<open>
  C1 (as amended). Behind the connection gate, \<open>query\<close> issues one scroll whose filter is
  the translation of the expression, and never raises a parse error: it returns the
  backend's points or the backend's error. An expression that begins with a clause
  \<^verbatim>\<open>relativePath == "literal"\<close> (any white space around \<^verbatim>\<open>==\<close>, a non-empty literal
  without a double quote) yields the predicate that the backend field \<open>relativePath\<close> equals
  the literal; so does an expression that contains such a clause, with the literal of
  the leftmost one. An expression yields a predicate only in this way. An expression that
  contains no such clause, a single equality on another field included, yields no
  predicate, and the query is the same as with the empty filter.
\<close>

theorem query_filter_translation:
  assumes "ensureInitialized db = Inr c"
  shows
    "query db name f outputFields limit =
       ((case client_scroll c name
               \<lparr>sc_filter = qdrantFilter f, sc_limit = or_number limit (Num 100),
                sc_with_payload = True, sc_with_vector = False\<rparr> of
           Inl e \<Rightarrow> Inl e
         | Inr points \<Rightarrow> Inr (map (query_point outputFields) points)),
        [Scroll name
           \<lparr>sc_filter = qdrantFilter f, sc_limit = or_number limit (Num 100),
            sc_with_payload = True, sc_with_vector = False\<rparr>]) \<and>
     (well_formed_clause ws1 ws2 lit \<longrightarrow>
        qdrantFilter (path_clause ws1 ws2 lit @ post)
          = Some (Must [\<lparr>key = js ''relativePath'', match_value = lit\<rparr>])) \<and>
     (well_formed_clause ws1 ws2 lit \<and>
      (\<forall>j < length pre. \<forall>ws1' ws2' lit' post'. well_formed_clause ws1' ws2' lit' \<longrightarrow>
         drop j (pre @ path_clause ws1 ws2 lit @ post) \<noteq> path_clause ws1' ws2' lit' @ post') \<longrightarrow>
        qdrantFilter (pre @ path_clause ws1 ws2 lit @ post)
          = Some (Must [\<lparr>key = js ''relativePath'', match_value = lit\<rparr>])) \<and>
     (qdrantFilter f = Some p \<longrightarrow>
        (\<exists>pre' w1 w2 l post'. f = pre' @ path_clause w1 w2 l @ post' \<and> well_formed_clause w1 w2 l \<and>
           p = Must [\<lparr>key = js ''relativePath'', match_value = l\<rparr>])) \<and>
     ((\<forall>pre' w1 w2 l post'. well_formed_clause w1 w2 l \<longrightarrow> f \<noteq> pre' @ path_clause w1 w2 l @ post') \<longrightarrow>
        qdrantFilter f = None \<and>
        query db name f outputFields limit = query db name [] outputFields limit)"
proof -
  have first: "qdrantFilter (path_clause ws1 ws2 lit @ post)
      = Some (Must [\<lparr>key = js ''relativePath'', match_value = lit\<rparr>])"
    if "well_formed_clause ws1 ws2 lit"
    using pathMatch_start [OF regexp_at_clause [OF that, of post]] by (simp add: qdrantFilter_eq)
  have leftmost: "qdrantFilter (pre @ path_clause ws1 ws2 lit @ post)
      = Some (Must [\<lparr>key = js ''relativePath'', match_value = lit\<rparr>])"
    if wf: "well_formed_clause ws1 ws2 lit"
      and none: "\<forall>j < length pre. \<forall>ws1' ws2' lit' post'. well_formed_clause ws1' ws2' lit' \<longrightarrow>
         drop j (pre @ path_clause ws1 ws2 lit @ post) \<noteq> path_clause ws1' ws2' lit' @ post'"
  proof -
    have "pathMatch (pre @ path_clause ws1 ws2 lit @ post) = pathMatch (path_clause ws1 ws2 lit @ post)"
    proof (rule pathMatch_skip)
      fix j assume j: "j < length pre"
      show "regexp_at (drop j (pre @ path_clause ws1 ws2 lit @ post)) = None"
      proof (cases "regexp_at (drop j (pre @ path_clause ws1 ws2 lit @ post))")
        case None
        then show ?thesis .
      next
        case (Some l)
        from regexp_at_sound [OF Some] none j show ?thesis by blast
      qed
    qed
    then show ?thesis
      using pathMatch_start [OF regexp_at_clause [OF wf, of post]] by (simp add: qdrantFilter_eq)
  qed
  have only: "\<exists>pre' w1 w2 l post'. f = pre' @ path_clause w1 w2 l @ post' \<and> well_formed_clause w1 w2 l \<and>
           p = Must [\<lparr>key = js ''relativePath'', match_value = l\<rparr>]"
    if "qdrantFilter f = Some p"
  proof -
    from that obtain l where l: "pathMatch f = Some l"
      and p: "p = Must [\<lparr>key = js ''relativePath'', match_value = l\<rparr>]"
      by (auto simp: qdrantFilter_eq split: option.splits)
    from pathMatch_sound [OF l] p show ?thesis by blast
  qed
  have unfiltered: "qdrantFilter f = None \<and>
        query db name f outputFields limit = query db name [] outputFields limit"
    if none: "\<forall>pre' w1 w2 l post'. well_formed_clause w1 w2 l \<longrightarrow> f \<noteq> pre' @ path_clause w1 w2 l @ post'"
  proof -
    have "pathMatch f = None"
    proof (cases "pathMatch f")
      case None
      then show ?thesis .
    next
      case (Some l)
      from pathMatch_sound [OF Some] none show ?thesis by blast
    qed
    then have "qdrantFilter f = None" by (simp add: qdrantFilter_eq)
    then show ?thesis
      by (simp add: query_ready [OF assms] scroll_request_of_def qdrantFilter_Nil)
  qed
  have request: "query db name f outputFields limit =
       ((case client_scroll c name
               \<lparr>sc_filter = qdrantFilter f, sc_limit = or_number limit (Num 100),
                sc_with_payload = True, sc_with_vector = False\<rparr> of
           Inl e \<Rightarrow> Inl e
         | Inr points \<Rightarrow> Inr (map (query_point outputFields) points)),
        [Scroll name
           \<lparr>sc_filter = qdrantFilter f, sc_limit = or_number limit (Num 100),
            sc_with_payload = True, sc_with_vector = False\<rparr>])"
    by (simp add: query_ready [OF assms] scroll_request_of_def)
  from request first leftmost only unfiltered show ?thesis by blast
qed

lemma regexp_at_Nil [simp]: "regexp_at [] = None"
  by (simp add: regexp_at_def keyword_codes)

lemma regexp_at_other [simp]: "c \<noteq> 114 \<Longrightarrow> regexp_at (c # cs) = None"
  by (simp add: regexp_at_def keyword_codes)

lemma pathMatch_extension_filter: "pathMatch extension_filter = None"
  by (simp add: extension_filter_def js_def)

lemma pathMatch_compound_filter: "pathMatch compound_filter = Some (js ''a.ts'')"
  by (simp add: compound_filter_def js_def regexp_at_def is_whitespace_def)

text \<open>
  C1 as stated fails in both directions: the single equality
  \<^verbatim>\<open>fileExtension == ".ts"\<close> yields no predicate and an unfiltered scroll, and the
  expression \<^verbatim>\<open>startLine == 7 && relativePath=="a.ts" || x\<close>, which is not a single
  equality, yields the predicate of its \<open>relativePath\<close> clause.
\<close>

theorem filter_shapes_mistranslated:
  "qdrantFilter extension_filter = None \<and>
   snd (query ready_db (js ''code'') extension_filter [] None)
     = [Scroll (js ''code'')
          \<lparr>sc_filter = None, sc_limit = Num 100, sc_with_payload = True, sc_with_vector = False\<rparr>] \<and>
   qdrantFilter compound_filter
     = Some (Must [\<lparr>key = js ''relativePath'', match_value = js ''a.ts''\<rparr>])"
  by (simp add: qdrantFilter_eq pathMatch_extension_filter pathMatch_compound_filter
      query_ready [OF ensureInitialized_ready_db] scroll_request_of_def)

lemma well_formed_sample: "well_formed_clause [32] [32] (js ''src/a.ts'')"
  by (simp add: well_formed_clause_def is_whitespace_def js_def)

lemma sample_clause_text:
  "path_clause [32] [32] (js ''src/a.ts'') = js ''relativePath == '' @ [34] @ js ''src/a.ts'' @ [34]"
  by (simp add: path_clause_def js_def)

text \<open>
  The theorem at \<^verbatim>\<open>relativePath == "src/a.ts"\<close> and at \<^verbatim>\<open>fileExtension == ".ts"\<close>.
\<close>

theorem query_filter_translation_witness:
  "ensureInitialized ready_db = Inr sample_client \<and>
   well_formed_clause [32] [32] (js ''src/a.ts'') \<and>
   path_clause [32] [32] (js ''src/a.ts'') = js ''relativePath == '' @ [34] @ js ''src/a.ts'' @ [34] \<and>
   query ready_db (js ''code'') (path_clause [32] [32] (js ''src/a.ts'')) [] None
     = (Inr [],
        [Scroll (js ''code'')
           \<lparr>sc_filter = Some (Must [\<lparr>key = js ''relativePath'', match_value = js ''src/a.ts''\<rparr>]),
            sc_limit = Num 100, sc_with_payload = True, sc_with_vector = False\<rparr>]) \<and>
   query ready_db (js ''code'') extension_filter [] None = query ready_db (js ''code'') [] [] None"
proof -
  note clause = query_filter_translation [OF ensureInitialized_ready_db,
      of "js ''code''" "path_clause [32] [32] (js ''src/a.ts'')" "[]" None "[32]" "[32]"
        "js ''src/a.ts''" "[]"]
  note other = query_filter_translation [OF ensureInitialized_ready_db,
      of "js ''code''" extension_filter "[]" None]
  have "query ready_db (js ''code'') (path_clause [32] [32] (js ''src/a.ts'')) [] None
     = (Inr [],
        [Scroll (js ''code'')
           \<lparr>sc_filter = Some (Must [\<lparr>key = js ''relativePath'', match_value = js ''src/a.ts''\<rparr>]),
            sc_limit = Num 100, sc_with_payload = True, sc_with_vector = False\<rparr>])"
    using clause well_formed_sample by (simp add: sample_client_def)
  moreover have "\<forall>pre' w1 w2 l post'. well_formed_clause w1 w2 l \<longrightarrow>
      extension_filter \<noteq> pre' @ path_clause w1 w2 l @ post'"
    using pathMatch_complete pathMatch_extension_filter by metis
  then have "query ready_db (js ''code'') extension_filter [] None
      = query ready_db (js ''code'') [] [] None"
    using other by blast
  ultimately show ?thesis
    using ensureInitialized_ready_db well_formed_sample sample_clause_text by simp
qed

end
